theory Spec2Isabelle
  imports Main "HOL-Library.Sublist"
begin

section \<open>JavaScript values and strings\<close>

text \<open>
  Handler arguments have the TypeScript type \<open>unknown\<close>: any JSON-like value.  Of a number
  the code modelled here tests nothing but its truthiness, so numbers are integers: 0
  stands for the falsy numbers, any other integer for a truthy one.  An object is the list
  of its own key/value bindings (each key once; the first binding of a key is the one a
  lookup sees).
\<close>

datatype jsval =
    JUndefined
  | JNull
  | JBool bool
  | JNum int
  | JStr string
  | JArr "jsval list"
  | JObj "(string \<times> jsval) list"

text \<open>JavaScript truthiness: what \<open>!v\<close> and \<open>v && ...\<close> test.\<close>

fun truthy :: "jsval \<Rightarrow> bool" where
  "truthy JUndefined = False"
| "truthy JNull = False"
| "truthy (JBool b) = b"
| "truthy (JNum n) = (n \<noteq> 0)"
| "truthy (JStr s) = (s \<noteq> [])"
| "truthy (JArr xs) = True"
| "truthy (JObj kvs) = True"

fun typeof :: "jsval \<Rightarrow> string" where
  "typeof JUndefined = ''undefined''"
| "typeof JNull = ''object''"
| "typeof (JBool b) = ''boolean''"
| "typeof (JNum n) = ''number''"
| "typeof (JStr s) = ''string''"
| "typeof (JArr xs) = ''object''"
| "typeof (JObj kvs) = ''object''"

text \<open>Decimal rendering of numbers inside template literals.\<close>

definition digit_char :: "nat \<Rightarrow> char" where
  "digit_char d = char_of (48 + d)"

fun string_of_nat :: "nat \<Rightarrow> string" where
  "string_of_nat n =
     (if n < 10 then [digit_char n] else string_of_nat (n div 10) @ [digit_char (n mod 10)])"

declare string_of_nat.simps [simp del]

definition string_of_int :: "int \<Rightarrow> string" where
  "string_of_int i = (if i < 0 then CHR ''-'' # string_of_nat (nat (- i)) else string_of_nat (nat i))"

text \<open>
  \<open>field in obj\<close> and \<open>obj[field]\<close> on own properties.  An array owns its indices and
  \<open>length\<close>; other values are never asked (the caller checks \<open>typeof\<close> first).  The field
  names that the handlers ask for (their required fields and the four search criteria) are
  not names of members that objects or arrays inherit, so own properties decide.
\<close>

fun has_field :: "jsval \<Rightarrow> string \<Rightarrow> bool" where
  "has_field (JObj kvs) f = (f \<in> set (map fst kvs))"
| "has_field (JArr xs) f = (f = ''length'' \<or> f \<in> set (map string_of_nat [0..<length xs]))"
| "has_field v f = False"

fun get_field :: "jsval \<Rightarrow> string \<Rightarrow> jsval" where
  "get_field (JObj kvs) f = (case map_of kvs f of Some v \<Rightarrow> v | None \<Rightarrow> JUndefined)"
| "get_field (JArr xs) f =
     (if f = ''length'' then JNum (int (length xs))
      else case map_of (zip (map string_of_nat [0..<length xs]) xs) f of
             Some v \<Rightarrow> v | None \<Rightarrow> JUndefined)"
| "get_field v f = JUndefined"

text \<open>\<open>s.includes(sub)\<close>: \<open>sub\<close> occurs in \<open>s\<close> as a contiguous run of characters.\<close>

fun str_includes :: "string \<Rightarrow> string \<Rightarrow> bool" where
  "str_includes [] sub = (sub = [])"
| "str_includes (c # cs) sub = (prefix sub (c # cs) \<or> str_includes cs sub)"

section \<open>The response contract (types/tool-response)\<close>

datatype IToolContent = TextContent (text_of: string)

record IToolResponse =
  content :: "IToolContent list"
  isError :: "bool option"
  errorCode :: "string option"
  requestId :: "string option"

datatype ErrorCode =
    RATE_LIMIT_EXCEEDED
  | INVALID_PARAMETERS
  | API_ERROR
  | AUTHENTICATION_FAILED
  | NETWORK_ERROR
  | MOCK_MODE
  | INTERNAL_ERROR

text \<open>The string each member of \<open>ERROR_CODES\<close> stands for.\<close>

fun code_string :: "ErrorCode \<Rightarrow> string" where
  "code_string RATE_LIMIT_EXCEEDED = ''RATE_LIMIT_EXCEEDED''"
| "code_string INVALID_PARAMETERS = ''INVALID_PARAMETERS''"
| "code_string API_ERROR = ''API_ERROR''"
| "code_string AUTHENTICATION_FAILED = ''AUTHENTICATION_FAILED''"
| "code_string NETWORK_ERROR = ''NETWORK_ERROR''"
| "code_string MOCK_MODE = ''MOCK_MODE''"
| "code_string INTERNAL_ERROR = ''INTERNAL_ERROR''"

definition ERROR_CODES :: "string list" where
  "ERROR_CODES =
     [''RATE_LIMIT_EXCEEDED'', ''INVALID_PARAMETERS'', ''API_ERROR'', ''AUTHENTICATION_FAILED'',
      ''NETWORK_ERROR'', ''MOCK_MODE'', ''INTERNAL_ERROR'']"

text \<open>\<open>ToolResponseBuilder\<close>: a field the builder does not write is absent.\<close>

definition success :: "string \<Rightarrow> string option \<Rightarrow> IToolResponse" where
  "success txt rid =
     \<lparr>content = [TextContent txt], isError = Some False, errorCode = None, requestId = rid\<rparr>"

definition error :: "string \<Rightarrow> ErrorCode \<Rightarrow> string option \<Rightarrow> IToolResponse" where
  "error txt code rid =
     \<lparr>content = [TextContent txt], isError = Some True, errorCode = Some (code_string code),
      requestId = rid\<rparr>"

definition mockResponse :: "string \<Rightarrow> string option \<Rightarrow> IToolResponse" where
  "mockResponse mockData rid =
     \<lparr>content = [TextContent (''[MOCK MODE] '' @ mockData)], isError = Some False,
      errorCode = None, requestId = rid\<rparr>"

text \<open>The envelope invariant: the error flag is set exactly when a code is present, and
  there is at least one content block.\<close>

definition envelope_ok :: "IToolResponse \<Rightarrow> bool" where
  "envelope_ok r = ((isError r = Some True) = (errorCode r \<noteq> None) \<and> content r \<noteq> [])"

section \<open>The common handler base (BaseToolHandler)\<close>

text \<open>
  What a \<open>throw\<close> can carry, as far as the code looks at it.  The two classifiers
  (\<open>handleError\<close> here, \<open>handleToolError\<close> in the orchestrator) test
  \<open>error instanceof Error\<close>, call \<open>error.message.includes(...)\<close> on an \<open>Error\<close> and
  \<open>String(error)\<close> on any other value:
  \<^item> \<open>ErrorObj m\<close> is an \<open>Error\<close> whose message is the string \<open>m\<close>;
  \<^item> \<open>BadMessage t\<close> is an \<open>Error\<close> whose message is not a string and on which the call
    of \<open>error.message.includes\<close> itself throws (a number, \<open>undefined\<close>, \<open>null\<close>, a plain
    object), and \<open>t\<close> is what it throws (a \<open>TypeError\<close> of the runtime);
  \<^item> \<open>NonError s\<close> is a value that is not an \<open>Error\<close> (a string, a number, a plain
    object, ...) and \<open>s\<close> is its \<open>String(...)\<close> rendering;
  \<^item> \<open>Unprintable t\<close> is a value that is not an \<open>Error\<close> and has no string conversion
    (an object without prototype, an object whose \<open>toString\<close> throws), so that
    \<open>String(error)\<close> itself throws, and \<open>t\<close> is what it throws.

  The code of the repository creates its \<open>Error\<close> objects from string messages.  An
  \<open>Error\<close> whose message is an object with an \<open>includes\<close> method of its own (an array) is
  the one kind of value that is not represented.
\<close>

datatype thrown = ErrorObj string | BadMessage thrown | NonError string | Unprintable thrown

text \<open>
  The mutable part of a handler object.  Timestamps are the millisecond readings of
  \<open>Date.now()\<close>.  The tracker is private to the base class: no subclass code reaches it.
\<close>

record handler =
  rateLimitTracker :: "string \<rightharpoonup> int list"
  maxRequestsPerMinute :: int

text \<open>The constructor: the quota argument defaults to 60 and a test environment
  (\<open>NODE_ENV === 'test'\<close>) forces 3.\<close>

definition new_handler :: "bool \<Rightarrow> int option \<Rightarrow> handler" where
  "new_handler test_env quota =
     \<lparr>rateLimitTracker = Map.empty,
      maxRequestsPerMinute = (if test_env then 3 else case quota of None \<Rightarrow> 60 | Some q \<Rightarrow> q)\<rparr>"

text \<open>The timestamps stored under a key; a key with no entry holds none.\<close>

definition bucket :: "handler \<Rightarrow> string \<Rightarrow> int list" where
  "bucket h toolName = (case rateLimitTracker h toolName of None \<Rightarrow> [] | Some ts \<Rightarrow> ts)"

text \<open>
  \<open>checkRateLimit\<close>, called at clock reading \<open>now\<close>.  It returns normally or throws; in
  both cases the handler object is returned as the call leaves it (an absent key has been
  given the empty list before the test).
\<close>

definition checkRateLimit :: "handler \<Rightarrow> string \<Rightarrow> int \<Rightarrow> (thrown + unit) \<times> handler" where
  "checkRateLimit h toolName now =
     (let windowStart = now - 60000;
          h1 = (if rateLimitTracker h toolName = None
                then h\<lparr>rateLimitTracker := (rateLimitTracker h)(toolName \<mapsto> [])\<rparr> else h);
          requests = bucket h1 toolName;
          recentRequests = filter (\<lambda>timestamp. timestamp > windowStart) requests
      in if int (length recentRequests) \<ge> maxRequestsPerMinute h1
         then (Inl (ErrorObj (''Rate limit exceeded for '' @ toolName @ ''. Maximum ''
                 @ string_of_int (maxRequestsPerMinute h1) @ '' requests per minute allowed.'')), h1)
         else (Inr (),
               h1\<lparr>rateLimitTracker := (rateLimitTracker h1)(toolName \<mapsto> recentRequests @ [now])\<rparr>))"

text \<open>
  \<open>handleError\<close> returns an error envelope, or throws what the test of the message or the
  string conversion throws: nothing in it catches.
\<close>

definition handleError :: "thrown \<Rightarrow> string \<Rightarrow> string option \<Rightarrow> thrown + IToolResponse" where
  "handleError err toolName rid =
     (case err of
        ErrorObj m \<Rightarrow>
          (if str_includes m ''Rate limit exceeded'' then Inr (error m RATE_LIMIT_EXCEEDED rid)
           else if str_includes m ''authentication''
             then Inr (error (''Authentication failed for '' @ toolName @ '': '' @ m) AUTHENTICATION_FAILED rid)
           else if str_includes m ''network'' \<or> str_includes m ''fetch''
             then Inr (error (''Network error in '' @ toolName @ '': '' @ m) NETWORK_ERROR rid)
           else Inr (error (''API error in '' @ toolName @ '': '' @ m) API_ERROR rid))
      | BadMessage t \<Rightarrow> Inl t
      | NonError s \<Rightarrow> Inr (error (''Internal error in '' @ toolName @ '': '' @ s) INTERNAL_ERROR rid)
      | Unprintable t \<Rightarrow> Inl t)"

text \<open>\<open>validateRequired\<close>: the loop stops at the first required field that is missing,
  \<open>null\<close> or \<open>undefined\<close>.\<close>

definition field_missing :: "jsval \<Rightarrow> string \<Rightarrow> bool" where
  "field_missing params field =
     (\<not> has_field params field \<or> get_field params field = JNull
      \<or> get_field params field = JUndefined)"

definition validateRequired :: "jsval \<Rightarrow> string list \<Rightarrow> string \<Rightarrow> thrown + jsval" where
  "validateRequired params requiredFields toolName =
     (if \<not> truthy params \<or> typeof params \<noteq> ''object''
      then Inl (ErrorObj (''Invalid parameters for '' @ toolName @ '': expected object''))
      else case find (field_missing params) requiredFields of
             Some field \<Rightarrow>
               Inl (ErrorObj (''Missing required parameter for '' @ toolName @ '': '' @ field))
           | None \<Rightarrow> Inr params)"

text \<open>
  \<open>createSuccessResponse\<close> and \<open>createMockResponse\<close>.  Their first argument is the text
  that \<open>JSON.stringify(data, null, 2)\<close> yields for the data; the message is optional and
  an empty one counts as absent.
\<close>

definition createSuccessResponse :: "string \<Rightarrow> string option \<Rightarrow> string option \<Rightarrow> IToolResponse" where
  "createSuccessResponse dataJson msg rid =
     (let formattedMessage =
            (case msg of None \<Rightarrow> ''Operation completed successfully''
             | Some m \<Rightarrow> if m = [] then ''Operation completed successfully'' else m)
      in success (formattedMessage @ ''\<newline>\<newline>'' @ dataJson) rid)"


text \<open>
  Notions for stating the sliding-window properties: the stored timestamps that
  \<open>checkRateLimit\<close> keeps at clock reading \<open>now\<close> (those younger than 60000 ms; one whose
  age is exactly 60000 ms is dropped), the window that ends at \<open>T\<close>, and the timestamps of
  the calls that get through when \<open>checkRateLimit\<close> is called for one key at the clock
  readings \<open>ts\<close>, in this order; and the message of the error that a rejected call throws.
\<close>

definition recent :: "handler \<Rightarrow> string \<Rightarrow> int \<Rightarrow> int list" where
  "recent h toolName now = filter (\<lambda>timestamp. now - 60000 < timestamp) (bucket h toolName)"

definition rate_limit_message :: "string \<Rightarrow> int \<Rightarrow> string" where
  "rate_limit_message toolName quota =
     ''Rate limit exceeded for '' @ toolName @ ''. Maximum '' @ string_of_int quota
       @ '' requests per minute allowed.''"



section \<open>The tool handlers (LeadTools, ContactTools, SequenceTools, DealTools, AnalyticsTools)\<close>

text \<open>
  Every public handler method has the same shape: it generates a request id, then, inside
  one \<open>try\<close>, calls \<open>checkRateLimit\<close> with its own tool name, \<open>validateRequired\<close> with its
  list of required fields, and runs its business logic, which ends in
  \<open>createSuccessResponse\<close>; the \<open>catch\<close> answers whatever was thrown with the result of
  \<open>handleError\<close>, so the method throws exactly when \<open>handleError\<close> does.

  The business logic of an operation (what the method does between \<open>validateRequired\<close>
  and \<open>createSuccessResponse\<close>: further checks that throw, mock data, an optional upstream
  call) is a parameter.  It receives the validated arguments and the state \<open>'w\<close> of
  everything outside the handler object (the upstream API, the clock, the random source);
  it either throws or yields the JSON text of its data and the message, and returns the
  outer state as it leaves it.  It cannot reach the rate-limit tracker.
\<close>

type_synonym 'w body = "jsval \<Rightarrow> 'w \<Rightarrow> (thrown + string \<times> string option) \<times> 'w"

text \<open>Arguments of \<open>runTool\<close>: tool name, required fields, business logic; then the
  call's arguments, the clock reading of \<open>checkRateLimit\<close>, the generated request id, the
  handler object and the outer state.\<close>

definition runTool ::
  "string \<Rightarrow> string list \<Rightarrow> 'w body \<Rightarrow> jsval \<Rightarrow> int \<Rightarrow> string \<Rightarrow> handler \<Rightarrow> 'w
   \<Rightarrow> (thrown + IToolResponse) \<times> handler \<times> 'w" where
  "runTool toolName requiredFields logic args now rid h w =
     (case checkRateLimit h toolName now of
        (Inl e, h') \<Rightarrow> (handleError e toolName (Some rid), h', w)
      | (Inr u, h') \<Rightarrow>
          (case validateRequired args requiredFields toolName of
             Inl e \<Rightarrow> (handleError e toolName (Some rid), h', w)
           | Inr params \<Rightarrow>
               (case logic params w of
                  (Inl e, w') \<Rightarrow> (handleError e toolName (Some rid), h', w')
                | (Inr (dataJson, msg), w') \<Rightarrow>
                    (Inr (createSuccessResponse dataJson msg (Some rid)), h', w'))))"

text \<open>\<open>searchLeads\<close> tests its four criteria before anything else of its logic runs.\<close>

definition searchLeads_criteria :: "'w body \<Rightarrow> 'w body" where
  "searchLeads_criteria rest params w =
     (if \<not> truthy (get_field params ''jobTitle'') \<and> \<not> truthy (get_field params ''industry'')
         \<and> \<not> truthy (get_field params ''companySize'') \<and> \<not> truthy (get_field params ''location'')
      then (Inl (ErrorObj ''At least one search criterion must be provided''), w)
      else rest params w)"

text \<open>
  After that test \<open>searchLeads\<close> obtains its results: from \<open>generateMockLeads\<close> when the
  handler has no API client, else from the upstream search, with \<open>generateMockLeads\<close> as
  the fall-back when that call fails.  Both ways end in the same two lines: the message is
  the word \<open>Found\<close>, a space, the number of results, the words
  \<open>leads matching your criteria:\<close>, an empty line and the listing of \<open>formatLeads\<close>; the
  answer is \<open>createSuccessResponse(results, message, requestId)\<close>.  The search is the
  parameter; of the results it yields the JSON text and the part of the message that
  follows \<open>Found\<close> and the space (the number, the fixed words, the empty line and the
  listing).
\<close>

definition searchLeads_message :: "'w body \<Rightarrow> 'w body" where
  "searchLeads_message search params w =
     (case search params w of
        (Inl e, w') \<Rightarrow> (Inl e, w')
      | (Inr (resultsJson, summary), w') \<Rightarrow>
          (Inr (resultsJson, Some (''Found '' @ (case summary of None \<Rightarrow> [] | Some t \<Rightarrow> t))), w'))"

text \<open>The handler methods, each with the tool name and the required fields it passes.
  \<open>impl\<close> maps a tool name to the business logic of that operation.\<close>

type_synonym 'w tool_method =
  "(string \<Rightarrow> 'w body) \<Rightarrow> jsval \<Rightarrow> int \<Rightarrow> string \<Rightarrow> handler \<Rightarrow> 'w
   \<Rightarrow> (thrown + IToolResponse) \<times> handler \<times> 'w"

definition searchLeads :: "'w tool_method" where
  "searchLeads impl =
     runTool ''search-leads'' [] (searchLeads_criteria (searchLeads_message (impl ''search-leads'')))"

definition searchOrganizations :: "'w tool_method" where
  "searchOrganizations impl = runTool ''search-organizations'' [] (impl ''search-organizations'')"

definition bulkEnrichContacts :: "'w tool_method" where
  "bulkEnrichContacts impl = runTool ''bulk-enrich-contacts'' [''contacts''] (impl ''bulk-enrich-contacts'')"

definition bulkEnrichOrganizations :: "'w tool_method" where
  "bulkEnrichOrganizations impl = runTool ''bulk-enrich-organizations'' [''organizations''] (impl ''bulk-enrich-organizations'')"

definition enrichContact :: "'w tool_method" where
  "enrichContact impl = runTool ''enrich-contact'' [''email''] (impl ''enrich-contact'')"

definition createContact :: "'w tool_method" where
  "createContact impl = runTool ''create-contact'' [''firstName'', ''lastName'', ''email''] (impl ''create-contact'')"

definition updateContact :: "'w tool_method" where
  "updateContact impl = runTool ''update-contact'' [''contactId''] (impl ''update-contact'')"

definition searchContacts :: "'w tool_method" where
  "searchContacts impl = runTool ''search-contacts'' [] (impl ''search-contacts'')"

definition getAccountData :: "'w tool_method" where
  "getAccountData impl = runTool ''get-account-data'' [''domain''] (impl ''get-account-data'')"

definition createEmailSequence :: "'w tool_method" where
  "createEmailSequence impl = runTool ''create-email-sequence'' [''name'', ''contacts''] (impl ''create-email-sequence'')"

definition searchSequences :: "'w tool_method" where
  "searchSequences impl = runTool ''search-sequences'' [] (impl ''search-sequences'')"

definition updateSequence :: "'w tool_method" where
  "updateSequence impl = runTool ''update-sequence'' [''sequenceId''] (impl ''update-sequence'')"

definition getSequenceStats :: "'w tool_method" where
  "getSequenceStats impl = runTool ''get-sequence-stats'' [''sequenceId''] (impl ''get-sequence-stats'')"

definition addContactsToSequence :: "'w tool_method" where
  "addContactsToSequence impl = runTool ''add-contacts-to-sequence'' [''sequenceId''] (impl ''add-contacts-to-sequence'')"

definition removeContactsFromSequence :: "'w tool_method" where
  "removeContactsFromSequence impl = runTool ''remove-contacts-from-sequence'' [''sequenceId'', ''contactIds''] (impl ''remove-contacts-from-sequence'')"

definition createDeal :: "'w tool_method" where
  "createDeal impl = runTool ''create-deal'' [''name'', ''value'', ''stage''] (impl ''create-deal'')"

definition updateDeal :: "'w tool_method" where
  "updateDeal impl = runTool ''update-deal'' [''dealId''] (impl ''update-deal'')"

definition searchDeals :: "'w tool_method" where
  "searchDeals impl = runTool ''search-deals'' [] (impl ''search-deals'')"

definition trackEngagement :: "'w tool_method" where
  "trackEngagement impl = runTool ''track-engagement'' [''sequenceId''] (impl ''track-engagement'')"

definition searchNews :: "'w tool_method" where
  "searchNews impl = runTool ''search-news'' [] (impl ''search-news'')"

definition searchJobPostings :: "'w tool_method" where
  "searchJobPostings impl = runTool ''search-job-postings'' [] (impl ''search-job-postings'')"

definition getApiUsage :: "'w tool_method" where
  "getApiUsage impl = runTool ''get-api-usage'' [] (impl ''get-api-usage'')"

definition createTask :: "'w tool_method" where
  "createTask impl = runTool ''create-task'' [''title'', ''dueDate''] (impl ''create-task'')"

definition logCall :: "'w tool_method" where
  "logCall impl = runTool ''log-call'' [''contactId''] (impl ''log-call'')"

definition searchTasks :: "'w tool_method" where
  "searchTasks impl = runTool ''search-tasks'' [] (impl ''search-tasks'')"

section \<open>The orchestrator (ApolloToolsOrchestrator)\<close>

record orchestrator =
  leadTools :: handler
  contactTools :: handler
  sequenceTools :: handler
  dealTools :: handler
  analyticsTools :: handler

definition getMaxRequestsPerMinute :: "bool \<Rightarrow> int" where
  "getMaxRequestsPerMinute test_env = (if test_env then 3 else 60)"

text \<open>The constructor gives each of the five handler objects the same quota.\<close>

definition new_orchestrator :: "bool \<Rightarrow> orchestrator" where
  "new_orchestrator test_env =
     (let maxRequests = getMaxRequestsPerMinute test_env in
      \<lparr>leadTools = new_handler test_env (Some maxRequests),
       contactTools = new_handler test_env (Some maxRequests),
       sequenceTools = new_handler test_env (Some maxRequests),
       dealTools = new_handler test_env (Some maxRequests),
       analyticsTools = new_handler test_env (Some maxRequests)\<rparr>)"

text \<open>The handler methods the dispatch can reach, by name.\<close>

datatype handler_method =
    SearchLeads | SearchOrganizations | BulkEnrichContacts | BulkEnrichOrganizations
  | EnrichContact | CreateContact | UpdateContact | SearchContacts
  | GetAccountData | CreateEmailSequence | SearchSequences | UpdateSequence
  | GetSequenceStats | AddContactsToSequence | RemoveContactsFromSequence | CreateDeal
  | UpdateDeal | SearchDeals | TrackEngagement | SearchNews
  | SearchJobPostings | GetApiUsage | CreateTask | LogCall
  | SearchTasks

text \<open>
  The dispatch is written over any table of handler methods: a method takes the arguments
  and the state it works on, and returns an envelope or throws.
\<close>

type_synonym 's call = "jsval \<Rightarrow> 's \<Rightarrow> (thrown + IToolResponse) \<times> 's"

definition isLeadTool :: "string \<Rightarrow> bool" where
  "isLeadTool nm = (nm \<in> set [''search-leads'', ''search-organizations'', ''bulk-enrich-contacts'', ''bulk-enrich-organizations''])"

definition isContactTool :: "string \<Rightarrow> bool" where
  "isContactTool nm = (nm \<in> set [''enrich-contact'', ''create-contact'', ''update-contact'', ''search-contacts'', ''get-account-data''])"

definition isSequenceTool :: "string \<Rightarrow> bool" where
  "isSequenceTool nm = (nm \<in> set [''create-email-sequence'', ''search-sequences'', ''update-sequence'', ''get-sequence-stats'', ''add-contacts-to-sequence'', ''remove-contacts-from-sequence''])"

definition isDealTool :: "string \<Rightarrow> bool" where
  "isDealTool nm = (nm \<in> set [''create-deal'', ''update-deal'', ''search-deals''])"

definition isAnalyticsTool :: "string \<Rightarrow> bool" where
  "isAnalyticsTool nm = (nm \<in> set [''track-engagement'', ''search-news'', ''search-job-postings'', ''get-api-usage'', ''create-task'', ''log-call'', ''search-tasks''])"

definition callLeadTool :: "(handler_method \<Rightarrow> 's call) \<Rightarrow> string \<Rightarrow> 's call" where
  "callLeadTool methods nm args s =
     (if nm = ''search-leads'' then methods SearchLeads args s
      else if nm = ''search-organizations'' then methods SearchOrganizations args s
      else if nm = ''bulk-enrich-contacts'' then methods BulkEnrichContacts args s
      else if nm = ''bulk-enrich-organizations'' then methods BulkEnrichOrganizations args s
      else (Inl (ErrorObj (''Invalid lead tool: '' @ nm)), s))"

definition callContactTool :: "(handler_method \<Rightarrow> 's call) \<Rightarrow> string \<Rightarrow> 's call" where
  "callContactTool methods nm args s =
     (if nm = ''enrich-contact'' then methods EnrichContact args s
      else if nm = ''create-contact'' then methods CreateContact args s
      else if nm = ''update-contact'' then methods UpdateContact args s
      else if nm = ''search-contacts'' then methods SearchContacts args s
      else if nm = ''get-account-data'' then methods GetAccountData args s
      else (Inl (ErrorObj (''Invalid contact tool: '' @ nm)), s))"

definition callSequenceTool :: "(handler_method \<Rightarrow> 's call) \<Rightarrow> string \<Rightarrow> 's call" where
  "callSequenceTool methods nm args s =
     (if nm = ''create-email-sequence'' then methods CreateEmailSequence args s
      else if nm = ''search-sequences'' then methods SearchSequences args s
      else if nm = ''update-sequence'' then methods UpdateSequence args s
      else if nm = ''get-sequence-stats'' then methods GetSequenceStats args s
      else if nm = ''add-contacts-to-sequence'' then methods AddContactsToSequence args s
      else if nm = ''remove-contacts-from-sequence'' then methods RemoveContactsFromSequence args s
      else (Inl (ErrorObj (''Invalid sequence tool: '' @ nm)), s))"

definition callDealTool :: "(handler_method \<Rightarrow> 's call) \<Rightarrow> string \<Rightarrow> 's call" where
  "callDealTool methods nm args s =
     (if nm = ''create-deal'' then methods CreateDeal args s
      else if nm = ''update-deal'' then methods UpdateDeal args s
      else if nm = ''search-deals'' then methods SearchDeals args s
      else (Inl (ErrorObj (''Invalid deal tool: '' @ nm)), s))"

definition callAnalyticsTool :: "(handler_method \<Rightarrow> 's call) \<Rightarrow> string \<Rightarrow> 's call" where
  "callAnalyticsTool methods nm args s =
     (if nm = ''track-engagement'' then methods TrackEngagement args s
      else if nm = ''search-news'' then methods SearchNews args s
      else if nm = ''search-job-postings'' then methods SearchJobPostings args s
      else if nm = ''get-api-usage'' then methods GetApiUsage args s
      else if nm = ''create-task'' then methods CreateTask args s
      else if nm = ''log-call'' then methods LogCall args s
      else if nm = ''search-tasks'' then methods SearchTasks args s
      else (Inl (ErrorObj (''Invalid analytics tool: '' @ nm)), s))"

definition dispatchTool :: "(handler_method \<Rightarrow> 's call) \<Rightarrow> string \<Rightarrow> 's call" where
  "dispatchTool methods toolName args s =
     (if isLeadTool toolName then callLeadTool methods toolName args s
      else if isContactTool toolName then callContactTool methods toolName args s
      else if isSequenceTool toolName then callSequenceTool methods toolName args s
      else if isDealTool toolName then callDealTool methods toolName args s
      else if isAnalyticsTool toolName then callAnalyticsTool methods toolName args s
      else (Inr (error (''Unknown tool: '' @ toolName) INVALID_PARAMETERS None), s))"

text \<open>
  \<open>handleToolError\<close> runs inside the \<open>catch\<close> of \<open>handleToolCall\<close>.  Like \<open>handleError\<close> it
  returns an error envelope or throws what the test of the message or the string conversion
  throws.
\<close>

definition handleToolError :: "string \<Rightarrow> thrown \<Rightarrow> thrown + IToolResponse" where
  "handleToolError toolName err =
     (case err of
        ErrorObj m \<Rightarrow>
          (if str_includes m ''Rate limit exceeded'' then Inr (error m RATE_LIMIT_EXCEEDED None)
           else if str_includes m ''authentication'' then Inr (error m AUTHENTICATION_FAILED None)
           else if str_includes m ''Missing required'' then Inr (error m INVALID_PARAMETERS None)
           else Inr (error (''Internal error in '' @ toolName @ '': '' @ m) INTERNAL_ERROR None))
      | BadMessage t \<Rightarrow> Inl t
      | NonError s \<Rightarrow> Inr (error (''Internal error in '' @ toolName @ '': '' @ s) INTERNAL_ERROR None)
      | Unprintable t \<Rightarrow> Inl t)"

text \<open>
  The request parameters of a \<open>tools/call\<close>: the tool name and the optional argument bag,
  an object keyed by strings.  \<open>handleToolCall\<close> returns an envelope, or throws what
  \<open>handleToolError\<close> throws inside its \<open>catch\<close>.
\<close>

record CallToolParams =
  tool_name :: string
  arguments :: "(string \<times> jsval) list option"

definition handleToolCall ::
  "(handler_method \<Rightarrow> 's call) \<Rightarrow> CallToolParams \<Rightarrow> 's \<Rightarrow> (thrown + IToolResponse) \<times> 's" where
  "handleToolCall methods request s =
     (case arguments request of
        None \<Rightarrow> (Inr (error ''Missing required parameters'' INVALID_PARAMETERS None), s)
      | Some bag \<Rightarrow>
          (case dispatchTool methods (tool_name request) (JObj bag) s of
             (Inr r, s') \<Rightarrow> (Inr r, s')
           | (Inl e, s') \<Rightarrow> (handleToolError (tool_name request) e, s')))"

definition getAvailableTools :: "string list" where
  "getAvailableTools =
     [''search-leads'', ''search-organizations'', ''bulk-enrich-contacts'',
      ''bulk-enrich-organizations'',
      ''enrich-contact'', ''create-contact'', ''update-contact'', ''search-contacts'',
      ''get-account-data'',
      ''create-email-sequence'', ''search-sequences'', ''update-sequence'',
      ''get-sequence-stats'', ''add-contacts-to-sequence'', ''remove-contacts-from-sequence'',
      ''create-deal'', ''update-deal'', ''search-deals'',
      ''track-engagement'', ''search-news'', ''search-job-postings'', ''get-api-usage'',
      ''create-task'', ''log-call'', ''search-tasks'']"

text \<open>
  The handler methods of the five handler objects, as methods over the orchestrator and the
  outer state: what a method returns or throws is what the call returns or throws.  \<open>now\<close>
  and \<open>rid\<close> are what the clock and the request id generator give during the call.
\<close>

definition onLeadTools ::
  "(handler \<Rightarrow> 'w \<Rightarrow> (thrown + IToolResponse) \<times> handler \<times> 'w) \<Rightarrow> orchestrator \<times> 'w
   \<Rightarrow> (thrown + IToolResponse) \<times> orchestrator \<times> 'w" where
  "onLeadTools f s =
     (case f (leadTools (fst s)) (snd s) of
        (r, h', w') \<Rightarrow> (r, (fst s)\<lparr>leadTools := h'\<rparr>, w'))"

definition onContactTools ::
  "(handler \<Rightarrow> 'w \<Rightarrow> (thrown + IToolResponse) \<times> handler \<times> 'w) \<Rightarrow> orchestrator \<times> 'w
   \<Rightarrow> (thrown + IToolResponse) \<times> orchestrator \<times> 'w" where
  "onContactTools f s =
     (case f (contactTools (fst s)) (snd s) of
        (r, h', w') \<Rightarrow> (r, (fst s)\<lparr>contactTools := h'\<rparr>, w'))"

definition onSequenceTools ::
  "(handler \<Rightarrow> 'w \<Rightarrow> (thrown + IToolResponse) \<times> handler \<times> 'w) \<Rightarrow> orchestrator \<times> 'w
   \<Rightarrow> (thrown + IToolResponse) \<times> orchestrator \<times> 'w" where
  "onSequenceTools f s =
     (case f (sequenceTools (fst s)) (snd s) of
        (r, h', w') \<Rightarrow> (r, (fst s)\<lparr>sequenceTools := h'\<rparr>, w'))"

definition onDealTools ::
  "(handler \<Rightarrow> 'w \<Rightarrow> (thrown + IToolResponse) \<times> handler \<times> 'w) \<Rightarrow> orchestrator \<times> 'w
   \<Rightarrow> (thrown + IToolResponse) \<times> orchestrator \<times> 'w" where
  "onDealTools f s =
     (case f (dealTools (fst s)) (snd s) of
        (r, h', w') \<Rightarrow> (r, (fst s)\<lparr>dealTools := h'\<rparr>, w'))"

definition onAnalyticsTools ::
  "(handler \<Rightarrow> 'w \<Rightarrow> (thrown + IToolResponse) \<times> handler \<times> 'w) \<Rightarrow> orchestrator \<times> 'w
   \<Rightarrow> (thrown + IToolResponse) \<times> orchestrator \<times> 'w" where
  "onAnalyticsTools f s =
     (case f (analyticsTools (fst s)) (snd s) of
        (r, h', w') \<Rightarrow> (r, (fst s)\<lparr>analyticsTools := h'\<rparr>, w'))"

fun apolloMethods ::
  "(string \<Rightarrow> 'w body) \<Rightarrow> int \<Rightarrow> string \<Rightarrow> handler_method \<Rightarrow> (orchestrator \<times> 'w) call" where
  "apolloMethods impl now rid SearchLeads args = onLeadTools (searchLeads impl args now rid)"
| "apolloMethods impl now rid SearchOrganizations args = onLeadTools (searchOrganizations impl args now rid)"
| "apolloMethods impl now rid BulkEnrichContacts args = onLeadTools (bulkEnrichContacts impl args now rid)"
| "apolloMethods impl now rid BulkEnrichOrganizations args = onLeadTools (bulkEnrichOrganizations impl args now rid)"
| "apolloMethods impl now rid EnrichContact args = onContactTools (enrichContact impl args now rid)"
| "apolloMethods impl now rid CreateContact args = onContactTools (createContact impl args now rid)"
| "apolloMethods impl now rid UpdateContact args = onContactTools (updateContact impl args now rid)"
| "apolloMethods impl now rid SearchContacts args = onContactTools (searchContacts impl args now rid)"
| "apolloMethods impl now rid GetAccountData args = onContactTools (getAccountData impl args now rid)"
| "apolloMethods impl now rid CreateEmailSequence args = onSequenceTools (createEmailSequence impl args now rid)"
| "apolloMethods impl now rid SearchSequences args = onSequenceTools (searchSequences impl args now rid)"
| "apolloMethods impl now rid UpdateSequence args = onSequenceTools (updateSequence impl args now rid)"
| "apolloMethods impl now rid GetSequenceStats args = onSequenceTools (getSequenceStats impl args now rid)"
| "apolloMethods impl now rid AddContactsToSequence args = onSequenceTools (addContactsToSequence impl args now rid)"
| "apolloMethods impl now rid RemoveContactsFromSequence args = onSequenceTools (removeContactsFromSequence impl args now rid)"
| "apolloMethods impl now rid CreateDeal args = onDealTools (createDeal impl args now rid)"
| "apolloMethods impl now rid UpdateDeal args = onDealTools (updateDeal impl args now rid)"
| "apolloMethods impl now rid SearchDeals args = onDealTools (searchDeals impl args now rid)"
| "apolloMethods impl now rid TrackEngagement args = onAnalyticsTools (trackEngagement impl args now rid)"
| "apolloMethods impl now rid SearchNews args = onAnalyticsTools (searchNews impl args now rid)"
| "apolloMethods impl now rid SearchJobPostings args = onAnalyticsTools (searchJobPostings impl args now rid)"
| "apolloMethods impl now rid GetApiUsage args = onAnalyticsTools (getApiUsage impl args now rid)"
| "apolloMethods impl now rid CreateTask args = onAnalyticsTools (createTask impl args now rid)"
| "apolloMethods impl now rid LogCall args = onAnalyticsTools (logCall impl args now rid)"
| "apolloMethods impl now rid SearchTasks args = onAnalyticsTools (searchTasks impl args now rid)"

section \<open>The session transport (MCPServer.handlePostRequest)\<close>

text \<open>
  A transport is an object of the protocol SDK; the server only stores it under its session
  id and forwards requests to it.  What the SDK does during one request is given with the
  request: whether forwarding to a stored transport returns normally, and, for a new
  transport, whether \<open>connect\<close> and \<open>handleRequest\<close> return normally and which session id
  the transport then carries.
\<close>

record 't MCPServer =
  transports :: "string \<rightharpoonup> 't"

record 't sdk_outcome =
  forward_ok :: "'t \<Rightarrow> bool"
  new_transport :: 't
  connect_ok :: bool
  initial_ok :: bool
  new_sessionId :: "string option"

record post_request =
  session_header :: "string option"
  body :: jsval

record error_response =
  jsonrpc :: string
  error_code_of :: int
  error_message :: string

datatype http_response = Handled | Json nat error_response

definition createErrorResponse :: "string \<Rightarrow> error_response" where
  "createErrorResponse msg = \<lparr>jsonrpc = ''2.0'', error_code_of = - 32603, error_message = msg\<rparr>"

definition isInitializeRequest :: "jsval \<Rightarrow> bool" where
  "isInitializeRequest b =
     (if \<not> truthy b \<or> typeof b \<noteq> ''object'' then False
      else get_field b ''method'' = JStr ''initialize'')"

text \<open>
  The table is a plain object created by \<open>{}\<close>.  Reading \<open>this.transports[sessionId]\<close>
  gives the stored transport for a key the table owns.  For any other key the read falls
  through to \<open>Object.prototype\<close>: the twelve names below yield a function or an object,
  which is truthy but is no transport and has no \<open>handleRequest\<close>; every other name yields
  \<open>undefined\<close>.  Session ids that the server stores come from \<open>randomUUID\<close> and are never
  one of these names.
\<close>

definition objectPrototypeKeys :: "string list" where
  "objectPrototypeKeys =
     [''constructor'', ''__defineGetter__'', ''__defineSetter__'', ''hasOwnProperty'',
      ''__lookupGetter__'', ''__lookupSetter__'', ''isPrototypeOf'', ''propertyIsEnumerable'',
      ''toString'', ''valueOf'', ''__proto__'', ''toLocaleString'']"

datatype 't table_entry = Own 't | Inherited | Undefined

definition transports_at :: "'t MCPServer \<Rightarrow> string \<Rightarrow> 't table_entry" where
  "transports_at srv sid =
     (case transports srv sid of
        Some transport \<Rightarrow> Own transport
      | None \<Rightarrow> if sid \<in> set objectPrototypeKeys then Inherited else Undefined)"

text \<open>A header value is a string or absent; the empty string is falsy, as \<open>undefined\<close> is.\<close>

definition header_truthy :: "string option \<Rightarrow> bool" where
  "header_truthy v = (case v of None \<Rightarrow> False | Some x \<Rightarrow> x \<noteq> [])"

text \<open>
  \<open>handlePostRequest\<close>.  \<open>stored\<close> is the value of \<open>sessionId && this.transports[sessionId]\<close>
  when it is truthy.  Calling \<open>handleRequest\<close> on an inherited member throws a
  \<open>TypeError\<close>, which the \<open>catch\<close> of the method answers like any other exception.
\<close>

definition handlePostRequest ::
  "'t sdk_outcome \<Rightarrow> 't MCPServer \<Rightarrow> post_request \<Rightarrow> 't MCPServer \<times> http_response" where
  "handlePostRequest sdk srv req =
     (let sessionId = session_header req;
          stored = (case sessionId of None \<Rightarrow> Undefined
                    | Some sid \<Rightarrow> if sid \<noteq> [] then transports_at srv sid else Undefined)
      in case stored of
           Own transport \<Rightarrow>
             (if forward_ok sdk transport then (srv, Handled)
              else (srv, Json 500 (createErrorResponse ''Internal server error.'')))
         | Inherited \<Rightarrow> (srv, Json 500 (createErrorResponse ''Internal server error.''))
         | Undefined \<Rightarrow>
             (if \<not> header_truthy sessionId \<and> isInitializeRequest (body req)
              then (if connect_ok sdk \<and> initial_ok sdk
                    then (case new_sessionId sdk of
                            None \<Rightarrow> (srv, Handled)
                          | Some newSessionId \<Rightarrow>
                              if newSessionId \<noteq> []
                              then (srv\<lparr>transports := (transports srv)(newSessionId \<mapsto> new_transport sdk)\<rparr>,
                                    Handled)
                              else (srv, Handled))
                    else (srv, Json 500 (createErrorResponse ''Internal server error.'')))
              else (srv, Json 400 (createErrorResponse ''Bad Request: invalid session ID or method.''))))"

section \<open>Auxiliary notions and sample states\<close>





text \<open>
  Concrete states for the examples below: a handler with quota 1 whose \<open>search-leads\<close>
  bucket holds the timestamp 5; business logic that always succeeds, for one operation and
  for all; a table of handler
  methods that all throw the number 42; a server with one live session; an SDK whose calls
  all return normally.
\<close>

definition one_slot_handler :: handler where
  "one_slot_handler =
     \<lparr>rateLimitTracker = Map.empty(''search-leads'' \<mapsto> [5]), maxRequestsPerMinute = 1\<rparr>"

definition const_logic :: "unit body" where
  "const_logic params w = (Inr (''[]'', Some ''done''), w)"

definition const_impl :: "string \<Rightarrow> unit body" where
  "const_impl toolName = const_logic"










definition one_session_server :: "nat MCPServer" where
  "one_session_server = \<lparr>transports = Map.empty(''3f2b-session'' \<mapsto> 7)\<rparr>"

definition sdk_all_ok :: "nat sdk_outcome" where
  "sdk_all_ok = \<lparr>forward_ok = (\<lambda>t. True), new_transport = 8, connect_ok = True,
      initial_ok = True, new_sessionId = Some ''9c1d-session''\<rparr>"

section \<open>Properties of the response builders\<close>

lemma code_string_closed: "code_string c \<in> set ERROR_CODES"
  by (cases c) (simp_all add: ERROR_CODES_def)

text \<open>
  Claim C4.  Every envelope that one of the three response builders returns has its
  error flag set exactly when it carries an error code, and a non-empty content list;
  the success and the mock builder never write an error code, and the error builder
  always writes one of the seven strings of \<open>ERROR_CODES\<close>.
\<close>

theorem builders_envelope_invariant:
  "envelope_ok (success txt rid) \<and> envelope_ok (error txt code rid)
   \<and> envelope_ok (mockResponse txt rid)
   \<and> errorCode (success txt rid) = None \<and> errorCode (mockResponse txt rid) = None
   \<and> (\<exists>c. errorCode (error txt code rid) = Some c \<and> c \<in> set ERROR_CODES)
   \<and> isError (success txt rid) = Some False \<and> isError (mockResponse txt rid) = Some False
   \<and> isError (error txt code rid) = Some True"
  using code_string_closed [of code]
  by (simp add: envelope_ok_def success_def error_def mockResponse_def)

lemma error_fields:
  "isError (error t c rid) = Some True" "errorCode (error t c rid) = Some (code_string c)"
  "content (error t c rid) = [TextContent t]" "requestId (error t c rid) = rid"
  by (simp_all add: error_def)

section \<open>Substring tests\<close>

lemma str_includes_sublist: "str_includes s sub = sublist sub s"
  by (induction s) (auto simp: sublist_Cons_right)

lemma str_includes_suffix: "str_includes (pre @ sub) sub"
  by (simp add: str_includes_sublist)


section \<open>The rate limiter\<close>

lemma checkRateLimit_reject:
  assumes "maxRequestsPerMinute h \<le> int (length (recent h k now))"
  shows "\<exists>h'. checkRateLimit h k now =
           (Inl (ErrorObj (rate_limit_message k (maxRequestsPerMinute h))), h')
         \<and> (\<forall>k'. bucket h' k' = bucket h k') \<and> maxRequestsPerMinute h' = maxRequestsPerMinute h
         \<and> (rateLimitTracker h k \<noteq> None \<longrightarrow> h' = h)"
  using assms
  by (cases "rateLimitTracker h k")
    (simp_all add: checkRateLimit_def recent_def bucket_def Let_def rate_limit_message_def)

lemma checkRateLimit_admit:
  assumes "int (length (recent h k now)) < maxRequestsPerMinute h"
  shows "checkRateLimit h k now =
           (Inr (), h\<lparr>rateLimitTracker := (rateLimitTracker h)(k \<mapsto> recent h k now @ [now])\<rparr>)"
  using assms
  by (cases "rateLimitTracker h k") (simp_all add: checkRateLimit_def recent_def bucket_def Let_def)

lemma checkRateLimit_other_key:
  "k' \<noteq> k \<Longrightarrow> bucket (snd (checkRateLimit h k now)) k' = bucket h k'"
  by (cases "rateLimitTracker h k") (simp_all add: checkRateLimit_def bucket_def Let_def)

lemma bucket_update:
  "bucket (h\<lparr>rateLimitTracker := (rateLimitTracker h)(k \<mapsto> ts)\<rparr>) k' = (if k' = k then ts else bucket h k')"
  by (simp add: bucket_def)

text \<open>
  Claim C7.  A call of \<open>checkRateLimit\<close> that throws leaves the timestamps stored under
  every key as they were (and the whole handler object, when the key already had an entry);
  only a call that returns normally appends its clock reading, to the timestamps that
  were still inside the window.
\<close>

theorem rejected_call_keeps_bucket:
  "(\<forall>e. fst (checkRateLimit h k now) = Inl e \<longrightarrow>
       (\<forall>k'. bucket (snd (checkRateLimit h k now)) k' = bucket h k')
       \<and> (rateLimitTracker h k \<noteq> None \<longrightarrow> snd (checkRateLimit h k now) = h))
   \<and> (fst (checkRateLimit h k now) = Inr () \<longrightarrow>
       bucket (snd (checkRateLimit h k now)) k = recent h k now @ [now]
       \<and> int (length (recent h k now)) < maxRequestsPerMinute h)"
proof (cases "maxRequestsPerMinute h \<le> int (length (recent h k now))")
  case True
  from checkRateLimit_reject [OF True] show ?thesis by auto
next
  case False
  then have "int (length (recent h k now)) < maxRequestsPerMinute h" by simp
  from checkRateLimit_admit [OF this] this show ?thesis by (simp add: bucket_update)
qed

text \<open>A full bucket of quota 1: the call at 60004 is rejected and changes nothing; at
  60005 the stored timestamp 5 has left the window and the call is admitted.\<close>

theorem rejected_call_keeps_bucket_witness:
  "fst (checkRateLimit one_slot_handler ''search-leads'' 60004)
     = Inl (ErrorObj ''Rate limit exceeded for search-leads. Maximum 1 requests per minute allowed.'')
   \<and> snd (checkRateLimit one_slot_handler ''search-leads'' 60004) = one_slot_handler
   \<and> bucket one_slot_handler ''search-leads'' = [5]
   \<and> fst (checkRateLimit one_slot_handler ''search-leads'' 60005) = Inr ()
   \<and> bucket (snd (checkRateLimit one_slot_handler ''search-leads'' 60005)) ''search-leads'' = [60005]"
proof -
  let ?h = one_slot_handler
  have one: "string_of_int 1 = ''1''" by code_simp
  have rej: "fst (checkRateLimit ?h ''search-leads'' 60004)
     = Inl (ErrorObj ''Rate limit exceeded for search-leads. Maximum 1 requests per minute allowed.'')"
    by (simp add: checkRateLimit_def bucket_def one one_slot_handler_def)
  have adm: "fst (checkRateLimit ?h ''search-leads'' 60005) = Inr ()"
    by (simp add: checkRateLimit_def bucket_def one_slot_handler_def)
  have rec: "recent ?h ''search-leads'' 60005 = []" and b: "bucket ?h ''search-leads'' = [5]"
    and present: "rateLimitTracker ?h ''search-leads'' \<noteq> None"
    by (simp_all add: recent_def bucket_def one_slot_handler_def)
  show ?thesis
    using rejected_call_keeps_bucket [of ?h "''search-leads''" 60004]
      rejected_call_keeps_bucket [of ?h "''search-leads''" 60005] rej adm rec b present
    by simp
qed

subsection \<open>Runs of calls\<close>








subsection \<open>A rejected call inside a handler\<close>






section \<open>Envelopes of the handler methods\<close>




lemma handleError_text:
  "\<exists>pre c. handleError (ErrorObj m) tn rid = Inr (error (pre @ m) c rid)
     \<and> c \<in> {RATE_LIMIT_EXCEEDED, AUTHENTICATION_FAILED, NETWORK_ERROR, API_ERROR}"
proof -
  have "handleError (ErrorObj m) tn rid = Inr (error ([] @ m) RATE_LIMIT_EXCEEDED rid)
      \<or> handleError (ErrorObj m) tn rid
          = Inr (error ((''Authentication failed for '' @ tn @ '': '') @ m) AUTHENTICATION_FAILED rid)
      \<or> handleError (ErrorObj m) tn rid
          = Inr (error ((''Network error in '' @ tn @ '': '') @ m) NETWORK_ERROR rid)
      \<or> handleError (ErrorObj m) tn rid
          = Inr (error ((''API error in '' @ tn @ '': '') @ m) API_ERROR rid)"
    by (simp add: handleError_def)
  then show ?thesis by blast
qed

















section \<open>The dispatch boundary\<close>

text \<open>The five registration lists together are the list of available tools.\<close>

lemma registration_tools:
  "(nm \<in> set getAvailableTools) =
     (isLeadTool nm \<or> isContactTool nm \<or> isSequenceTool nm \<or> isDealTool nm \<or> isAnalyticsTool nm)"
  unfolding getAvailableTools_def isLeadTool_def isContactTool_def isSequenceTool_def
    isDealTool_def isAnalyticsTool_def
  by (simp only: set_simps insert_iff empty_iff disj_assoc simp_thms)

lemma dispatch_unknown:
  assumes "nm \<notin> set getAvailableTools"
  shows "dispatchTool methods nm args s =
           (Inr (error (''Unknown tool: '' @ nm) INVALID_PARAMETERS None), s)"
  using assms unfolding registration_tools dispatchTool_def
  by (simp only: if_False de_Morgan_disj simp_thms)

text \<open>
  Claim C3.  For a tool name outside the registration and an argument bag that is present,
  \<open>handleToolCall\<close> returns (whatever the handler methods are, and without touching the
  state) an error envelope with code \<open>INVALID_PARAMETERS\<close> whose text contains the name.
\<close>

theorem unknown_tool_invalid_parameters:
  assumes "nm \<notin> set getAvailableTools"
  shows "\<exists>r t. handleToolCall methods \<lparr>tool_name = nm, arguments = Some bag\<rparr> s = (Inr r, s)
           \<and> isError r = Some True \<and> errorCode r = Some ''INVALID_PARAMETERS''
           \<and> content r = [TextContent t] \<and> str_includes t nm"
proof -
  let ?r = "error (''Unknown tool: '' @ nm) INVALID_PARAMETERS None"
  have "handleToolCall methods \<lparr>tool_name = nm, arguments = Some bag\<rparr> s = (Inr ?r, s)"
    by (simp add: handleToolCall_def dispatch_unknown [OF assms])
  moreover have "isError ?r = Some True" "errorCode ?r = Some ''INVALID_PARAMETERS''"
    "content ?r = [TextContent (''Unknown tool: '' @ nm)]"
    by (simp_all add: error_def)
  moreover have "str_includes (''Unknown tool: '' @ nm) nm"
    by (rule str_includes_suffix)
  ultimately show ?thesis by blast
qed

text \<open>The claim at a name that is not registered, with the handlers of the repository.\<close>

theorem unknown_tool_invalid_parameters_witness:
  "''delete-everything'' \<notin> set getAvailableTools
   \<and> handleToolCall (apolloMethods const_impl 0 ''req_1'')
        \<lparr>tool_name = ''delete-everything'', arguments = Some []\<rparr> (new_orchestrator False, ())
      = (Inr (error ''Unknown tool: delete-everything'' INVALID_PARAMETERS None),
         new_orchestrator False, ())
   \<and> str_includes ''Unknown tool: delete-everything'' ''delete-everything''"
proof -
  let ?call = "handleToolCall (apolloMethods const_impl 0 ''req_1'')
        \<lparr>tool_name = ''delete-everything'', arguments = Some []\<rparr> (new_orchestrator False, ())"
  have notin: "''delete-everything'' \<notin> set getAvailableTools"
    by (simp add: getAvailableTools_def)
  from unknown_tool_invalid_parameters [OF notin,
      of "apolloMethods const_impl 0 ''req_1''" "[]" "(new_orchestrator False, ())"]
  obtain r where r: "?call = (Inr r, new_orchestrator False, ())" by blast
  have "?call = (Inr (error ''Unknown tool: delete-everything'' INVALID_PARAMETERS None),
         new_orchestrator False, ())"
    using r dispatch_unknown [OF notin, of "apolloMethods const_impl 0 ''req_1''"
        "JObj []" "(new_orchestrator False, ())"]
    by (simp add: handleToolCall_def)
  moreover have "str_includes ''Unknown tool: delete-everything'' ''delete-everything''"
    by simp
  ultimately show ?thesis using notin by blast
qed






section \<open>Failures inside a handler\<close>

lemma runTool_missing:
  assumes "int (length (recent h tn now)) < maxRequestsPerMinute h"
    and "find (field_missing (JObj bag)) required = Some f"
  shows "\<exists>h'. runTool tn required logic (JObj bag) now rid h w =
           (handleError (ErrorObj (''Missing required parameter for '' @ tn @ '': '' @ f)) tn (Some rid), h', w)"
  using assms(2) by (simp add: runTool_def checkRateLimit_admit [OF assms(1)] validateRequired_def)

text \<open>
  What every handler method does with an admitted call whose argument object lacks a
  required field (\<open>f\<close> is the first one missing): the error of \<open>validateRequired\<close> is caught
  by the handler itself and classified by \<open>handleError\<close>, which has no branch for
  \<open>INVALID_PARAMETERS\<close>.  The text names the field.
\<close>

lemma missing_required_field_response:
  assumes "int (length (recent h tn now)) < maxRequestsPerMinute h"
    and "find (field_missing (JObj bag)) required = Some f"
  shows "\<exists>r h' t. runTool tn required logic (JObj bag) now rid h w = (Inr r, h', w)
           \<and> Inr r = handleError (ErrorObj (''Missing required parameter for '' @ tn @ '': '' @ f)) tn (Some rid)
           \<and> isError r = Some True \<and> errorCode r \<noteq> Some ''INVALID_PARAMETERS''
           \<and> content r = [TextContent t] \<and> str_includes t f"
proof -
  let ?m = "''Missing required parameter for '' @ tn @ '': '' @ f"
  from runTool_missing [OF assms, of logic rid w] obtain h' where
    run: "runTool tn required logic (JObj bag) now rid h w = (handleError (ErrorObj ?m) tn (Some rid), h', w)"
    by blast
  obtain p c where shape: "handleError (ErrorObj ?m) tn (Some rid) = Inr (error (p @ ?m) c (Some rid))"
    "c \<in> {RATE_LIMIT_EXCEEDED, AUTHENTICATION_FAILED, NETWORK_ERROR, API_ERROR}"
    using handleError_text by blast
  let ?r = "error (p @ ?m) c (Some rid)"
  have "str_includes ((p @ ''Missing required parameter for '' @ tn @ '': '') @ f) f"
    by (rule str_includes_suffix)
  then have inc: "str_includes (p @ ?m) f" by simp
  have "isError ?r = Some True" "errorCode ?r \<noteq> Some ''INVALID_PARAMETERS''"
    "content ?r = [TextContent (p @ ?m)]"
    using shape(2) by (auto simp: error_fields)
  with run shape(1) inc show ?thesis by metis
qed

lemma dispatch_search_leads:
  "dispatchTool methods ''search-leads'' args s = methods SearchLeads args s"
  by (simp add: dispatchTool_def isLeadTool_def callLeadTool_def)

lemma dispatch_create_contact:
  "dispatchTool methods ''create-contact'' args s = methods CreateContact args s"
  by (simp add: dispatchTool_def isLeadTool_def isContactTool_def callContactTool_def)

lemma fresh_recent: "recent (new_handler t q) k now = []"
  by (simp add: recent_def bucket_def new_handler_def)

lemma new_orchestrator_handlers:
  "leadTools (new_orchestrator t) = new_handler t (Some (getMaxRequestsPerMinute t))"
  "contactTools (new_orchestrator t) = new_handler t (Some (getMaxRequestsPerMinute t))"
  "sequenceTools (new_orchestrator t) = new_handler t (Some (getMaxRequestsPerMinute t))"
  "dealTools (new_orchestrator t) = new_handler t (Some (getMaxRequestsPerMinute t))"
  "analyticsTools (new_orchestrator t) = new_handler t (Some (getMaxRequestsPerMinute t))"
  by (simp_all add: new_orchestrator_def Let_def)

lemma fresh_quota:
  "maxRequestsPerMinute (new_handler t (Some (getMaxRequestsPerMinute t))) = (if t then 3 else 60)"
  by (simp add: new_handler_def getMaxRequestsPerMinute_def)

text \<open>
  Claim C5, on the code.  \<open>create-contact\<close> requires \<open>firstName\<close>, \<open>lastName\<close> and \<open>email\<close>.
  Called through \<open>handleToolCall\<close> on a new orchestrator with only \<open>firstName\<close> given, it
  answers with the code \<open>API_ERROR\<close>; the text names the missing field \<open>lastName\<close>.  The
  branch of \<open>handleToolError\<close> that maps \<open>Missing required\<close> to \<open>INVALID_PARAMETERS\<close> is
  never reached, because the handler has already turned the error into an envelope.
\<close>

theorem create_contact_missing_lastName:
  "fst (handleToolCall (apolloMethods impl now rid)
          \<lparr>tool_name = ''create-contact'', arguments = Some [(''firstName'', JStr ''John'')]\<rparr>
          (new_orchestrator False, w))
     = Inr (error ''API error in create-contact: Missing required parameter for create-contact: lastName''
              API_ERROR (Some rid))
   \<and> errorCode (error ''API error in create-contact: Missing required parameter for create-contact: lastName''
              API_ERROR (Some rid)) = Some ''API_ERROR''"
proof -
  have adm: "int (length (recent (contactTools (new_orchestrator False)) ''create-contact'' now))
          < maxRequestsPerMinute (contactTools (new_orchestrator False))"
    by (simp add: new_orchestrator_handlers fresh_recent fresh_quota)
  have miss: "find (field_missing (JObj [(''firstName'', JStr ''John'')])) [''firstName'', ''lastName'', ''email'']
      = Some ''lastName''"
    by (simp add: field_missing_def)
  have he: "handleError (ErrorObj ''Missing required parameter for create-contact: lastName'')
        ''create-contact'' (Some rid)
      = Inr (error ''API error in create-contact: Missing required parameter for create-contact: lastName''
              API_ERROR (Some rid))"
    by (simp add: handleError_def)
  from runTool_missing [OF adm miss, of "impl ''create-contact''" rid w]
  show ?thesis
    by (auto simp: handleToolCall_def dispatch_create_contact onContactTools_def createContact_def
        he error_fields)
qed

lemma handleError_criterion:
  "handleError (ErrorObj ''At least one search criterion must be provided'') ''search-leads'' rid
     = Inr (error ''API error in search-leads: At least one search criterion must be provided''
              API_ERROR rid)"
  by (simp add: handleError_def)

lemma searchLeads_no_criteria:
  assumes "int (length (recent h ''search-leads'' now)) < maxRequestsPerMinute h"
    and "\<not> truthy (get_field (JObj bag) ''jobTitle'')" and "\<not> truthy (get_field (JObj bag) ''industry'')"
    and "\<not> truthy (get_field (JObj bag) ''companySize'')" and "\<not> truthy (get_field (JObj bag) ''location'')"
  shows "searchLeads impl (JObj bag) now rid h w =
           (Inr (error ''API error in search-leads: At least one search criterion must be provided''
              API_ERROR (Some rid)),
            h\<lparr>rateLimitTracker := (rateLimitTracker h)(''search-leads'' \<mapsto> recent h ''search-leads'' now @ [now])\<rparr>,
            w)"
  using assms(2-5)
  by (simp add: searchLeads_def runTool_def checkRateLimit_admit [OF assms(1)] validateRequired_def
      searchLeads_criteria_def handleError_criterion del: get_field.simps)

text \<open>
  Claim C6, as stated, fails: on a new orchestrator \<open>search-leads\<close> with the empty argument
  object returns the code \<open>API_ERROR\<close>, not \<open>INVALID_PARAMETERS\<close>.
\<close>

theorem search_leads_empty_counterexample:
  "fst (handleToolCall (apolloMethods const_impl 0 ''req_1'')
          \<lparr>tool_name = ''search-leads'', arguments = Some []\<rparr> (new_orchestrator False, ()))
     = Inr (error ''API error in search-leads: At least one search criterion must be provided''
              API_ERROR (Some ''req_1''))
   \<and> errorCode (error ''API error in search-leads: At least one search criterion must be provided''
              API_ERROR (Some ''req_1'')) \<noteq> Some ''INVALID_PARAMETERS''"
proof -
  have "int (length (recent (leadTools (new_orchestrator False)) ''search-leads'' 0))
          < maxRequestsPerMinute (leadTools (new_orchestrator False))"
    by (simp add: new_orchestrator_handlers fresh_recent fresh_quota)
  from searchLeads_no_criteria [OF this, of "[]" const_impl "''req_1''" "()"]
  show ?thesis
    by (simp add: handleToolCall_def dispatch_search_leads onLeadTools_def error_fields)
qed

text \<open>
  Claim C6, amended.  When the rate limiter admits the call and none of \<open>jobTitle\<close>,
  \<open>industry\<close>, \<open>companySize\<close>, \<open>location\<close> is given with a truthy value (in particular for
  the empty argument object), \<open>search-leads\<close> returns an error envelope with the code
  \<open>API_ERROR\<close> and the text
  \<open>API error in search-leads: At least one search criterion must be provided\<close>; the outer
  state is unchanged.
\<close>

theorem search_leads_without_criteria:
  assumes "int (length (recent (leadTools orch) ''search-leads'' now)) < maxRequestsPerMinute (leadTools orch)"
    and "\<not> truthy (get_field (JObj bag) ''jobTitle'')" and "\<not> truthy (get_field (JObj bag) ''industry'')"
    and "\<not> truthy (get_field (JObj bag) ''companySize'')" and "\<not> truthy (get_field (JObj bag) ''location'')"
  shows "\<exists>r orch'. handleToolCall (apolloMethods impl now rid)
             \<lparr>tool_name = ''search-leads'', arguments = Some bag\<rparr> (orch, w) = (Inr r, orch', w)
           \<and> r = error ''API error in search-leads: At least one search criterion must be provided''
                 API_ERROR (Some rid)
           \<and> isError r = Some True \<and> errorCode r = Some ''API_ERROR''
           \<and> str_includes (text_of (hd (content r))) ''At least one search criterion must be provided''"
proof -
  let ?r = "error ''API error in search-leads: At least one search criterion must be provided''
                 API_ERROR (Some rid)"
  have "\<exists>orch'. handleToolCall (apolloMethods impl now rid)
             \<lparr>tool_name = ''search-leads'', arguments = Some bag\<rparr> (orch, w) = (Inr ?r, orch', w)"
    by (simp add: handleToolCall_def dispatch_search_leads onLeadTools_def
        searchLeads_no_criteria [OF assms])
  moreover have "isError ?r = Some True" "errorCode ?r = Some ''API_ERROR''"
    by (simp_all add: error_fields)
  moreover have "str_includes (text_of (hd (content ?r))) ''At least one search criterion must be provided''"
    by (simp add: error_fields)
  ultimately show ?thesis by blast
qed

theorem search_leads_without_criteria_witness:
  "int (length (recent (leadTools (new_orchestrator True)) ''search-leads'' 1700000000000))
     < maxRequestsPerMinute (leadTools (new_orchestrator True))
   \<and> \<not> truthy (get_field (JObj []) ''jobTitle'') \<and> \<not> truthy (get_field (JObj []) ''industry'')
   \<and> \<not> truthy (get_field (JObj []) ''companySize'') \<and> \<not> truthy (get_field (JObj []) ''location'')
   \<and> fst (handleToolCall (apolloMethods const_impl 1700000000000 ''req_2'')
             \<lparr>tool_name = ''search-leads'', arguments = Some []\<rparr> (new_orchestrator True, ()))
       = Inr (error ''API error in search-leads: At least one search criterion must be provided''
                 API_ERROR (Some ''req_2''))"
proof -
  have adm: "int (length (recent (leadTools (new_orchestrator True)) ''search-leads'' 1700000000000))
     < maxRequestsPerMinute (leadTools (new_orchestrator True))"
    by (simp add: new_orchestrator_handlers fresh_recent fresh_quota)
  have c: "\<not> truthy (get_field (JObj []) ''jobTitle'')" "\<not> truthy (get_field (JObj []) ''industry'')"
    "\<not> truthy (get_field (JObj []) ''companySize'')" "\<not> truthy (get_field (JObj []) ''location'')"
    by simp_all
  from search_leads_without_criteria [OF adm c, of const_impl "''req_2''" "()"] adm
  show ?thesis by auto
qed

section \<open>What the two catches convert\<close>














section \<open>Mock mode\<close>







section \<open>Unknown session ids\<close>

text \<open>
  A POST request whose session id header is a non-empty string that is neither a key of the
  transport table nor the name of a member of \<open>Object.prototype\<close> is answered with status
  400 and the error \<open>Bad Request: invalid session ID or method.\<close>, whatever its body and
  whatever the SDK would do; the table is unchanged.
\<close>

lemma unknown_session_rejected:
  assumes "session_header req = Some sid" and "sid \<noteq> []" and "transports srv sid = None"
    and "sid \<notin> set objectPrototypeKeys"
  shows "handlePostRequest sdk srv req =
           (srv, Json 400 (createErrorResponse ''Bad Request: invalid session ID or method.''))"
  using assms by (simp add: handlePostRequest_def header_truthy_def transports_at_def)

text \<open>No request with a non-empty session id that the table does not own adds a session,
  and none is answered by a transport.\<close>

lemma unknown_session_no_new_session:
  assumes "session_header req = Some sid" and "sid \<noteq> []" and "transports srv sid = None"
  shows "fst (handlePostRequest sdk srv req) = srv \<and> snd (handlePostRequest sdk srv req) \<noteq> Handled"
  using assms by (simp add: handlePostRequest_def header_truthy_def transports_at_def)

text \<open>
  Claim C8, on the code.  The session id \<open>constructor\<close> is not in the table of a server
  with one live session, yet the request is not answered with the invalid-session error:
  the lookup finds the inherited member, the call of \<open>handleRequest\<close> on it throws, and the
  answer is status 500 with \<open>Internal server error.\<close>  The table is unchanged.
\<close>

theorem inherited_name_session_internal_error:
  "transports one_session_server ''constructor'' = None
   \<and> handlePostRequest sdk_all_ok one_session_server
        \<lparr>session_header = Some ''constructor'', body = JObj [(''method'', JStr ''tools/list'')]\<rparr>
      = (one_session_server, Json 500 (createErrorResponse ''Internal server error.''))
   \<and> Json 500 (createErrorResponse ''Internal server error.'')
      \<noteq> Json 400 (createErrorResponse ''Bad Request: invalid session ID or method.'')"
  by (simp add: handlePostRequest_def transports_at_def objectPrototypeKeys_def
      one_session_server_def createErrorResponse_def)

end
